theory Spec2Isabelle
  imports Main
begin

section \<open>The Rescan Worker: a BEFORE_DOWNLOAD gate in front of Xray\<close>

text \<open>
  A shallow embedding of \<^verbatim>\<open>src/worker.ts\<close> and \<^verbatim>\<open>src/types.ts\<close>.

  Modelling decisions, fixed here once:
  \<^item> A field that the worker reads through \<^verbatim>\<open>?.\<close>, \<^verbatim>\<open>??\<close> or \<^verbatim>\<open>!\<close> is an
    \<open>option\<close>: \<open>None\<close> is JavaScript's \<^verbatim>\<open>undefined\<close>/\<^verbatim>\<open>null\<close>. The two flags
    \<^verbatim>\<open>isFolder\<close> and \<^verbatim>\<open>isRoot\<close> are \<open>bool\<close> (a missing flag is falsy, that is \<open>False\<close>).
  \<^item> Strings are ASCII texts. A number in a payload is given by its canonical text.
  \<^item> A payload (\<^verbatim>\<open>response.data\<close>) is a JSON tree \<open>jsval\<close>; the HTTP status code of a
    response is typed as the source types it (\<^verbatim>\<open>status?: number\<close>,
    \<^verbatim>\<open>statusCode?: number\<close>).
  \<^item> What the platform client throws is an \<^verbatim>\<open>Error\<close> instance with a string message, or a
    JSON tree; a value with methods or getters of its own is outside the model.
  \<^item> An \<^verbatim>\<open>async\<close> function is a computation over the list of HTTP calls made so far,
    which returns a value or a thrown value together with the extended list.
  \<^item> What \<^verbatim>\<open>console.log/warn/error\<close> print is not part of the model, but the evaluation
    of their arguments is, wherever it can throw: \<^verbatim>\<open>String(error)\<close> and a template string
    throw a \<^verbatim>\<open>TypeError\<close> on a value that has no primitive form. \<^verbatim>\<open>JSON.stringify\<close> has a
    value on every JSON tree.
\<close>

subsection \<open>JavaScript values\<close>

text \<open>
  A number is represented by the text \<^verbatim>\<open>String(n)\<close> gives for it (\<^verbatim>\<open>503\<close>, \<^verbatim>\<open>0.5\<close>,
  \<^verbatim>\<open>1e+21\<close>, \<^verbatim>\<open>NaN\<close>): the worker does no arithmetic on the numbers of a payload, it tests
  them and prints them. An object is the list of its own properties.
\<close>

datatype jsval =
    JUndefined
  | JNull
  | JBool bool
  | JNum string
  | JStr string
  | JArr "jsval list"
  | JObj "(string \<times> jsval) list"

text \<open>What \<^verbatim>\<open>if (v)\<close> tests: of the numbers, \<^verbatim>\<open>0\<close>, \<^verbatim>\<open>-0\<close> (printed \<^verbatim>\<open>0\<close>) and \<^verbatim>\<open>NaN\<close> are falsy.\<close>

fun truthy :: "jsval \<Rightarrow> bool" where
  "truthy JUndefined = False"
| "truthy JNull = False"
| "truthy (JBool b) = b"
| "truthy (JNum t) = (t \<noteq> ''0'' \<and> t \<noteq> ''NaN'')"
| "truthy (JStr s) = (s \<noteq> [])"
| "truthy (JArr vs) = True"
| "truthy (JObj fields) = True"

text \<open>
  \<^verbatim>\<open>v?.name\<close> for the property names the worker reads (\<^verbatim>\<open>overall\<close>, \<^verbatim>\<open>status\<close>,
  \<^verbatim>\<open>response\<close>, \<^verbatim>\<open>data\<close>): \<^verbatim>\<open>undefined\<close> on a nullish value, on a primitive, on an array, and
  on an object without that property.
\<close>

fun js_prop :: "jsval \<Rightarrow> string \<Rightarrow> jsval" where
  "js_prop (JObj fields) name = (case map_of fields name of Some v \<Rightarrow> v | None \<Rightarrow> JUndefined)"
| "js_prop v name = JUndefined"

text \<open>
  A thrown value is an \<^verbatim>\<open>Error\<close> instance, with its message and its \<^verbatim>\<open>response\<close> property
  (\<^verbatim>\<open>undefined\<close> when it has none), or any other value.
\<close>

datatype thrown = ErrorInstance string jsval | Thrown jsval

text \<open>
  \<^verbatim>\<open>String(v)\<close> and \<^verbatim>\<open>`${v}`\<close>. An object is converted by the first of its methods
  \<^verbatim>\<open>toString\<close> and \<^verbatim>\<open>valueOf\<close> that is callable and returns a primitive. A JSON tree holds
  no function: an own property \<^verbatim>\<open>toString\<close> hides \<^verbatim>\<open>Object.prototype.toString\<close>, no
  \<^verbatim>\<open>valueOf\<close> returns a primitive, and the conversion throws a \<^verbatim>\<open>TypeError\<close>. An array is
  converted by \<^verbatim>\<open>join\<close>, which converts its elements and takes \<^verbatim>\<open>undefined\<close> and \<^verbatim>\<open>null\<close> for
  the empty string.
\<close>

definition cannotConvert :: thrown where
  "cannotConvert = ErrorInstance ''Cannot convert object to primitive value'' JUndefined"

fun join :: "string \<Rightarrow> string list \<Rightarrow> string" where
  "join sep [] = []"
| "join sep [s] = s"
| "join sep (s # t # ts) = s @ sep @ join sep (t # ts)"

fun ToString :: "jsval \<Rightarrow> thrown + string"
  and elementStrings :: "jsval list \<Rightarrow> thrown + string list" where
  "ToString JUndefined = Inr ''undefined''"
| "ToString JNull = Inr ''null''"
| "ToString (JBool b) = Inr (if b then ''true'' else ''false'')"
| "ToString (JNum t) = Inr t"
| "ToString (JStr s) = Inr s"
| "ToString (JArr vs) =
     (case elementStrings vs of Inl e \<Rightarrow> Inl e | Inr ss \<Rightarrow> Inr (join '','' ss))"
| "ToString (JObj fields) =
     (if map_of fields ''toString'' = None then Inr ''[object Object]'' else Inl cannotConvert)"
| "elementStrings [] = Inr []"
| "elementStrings (v # vs) =
     (case (if v = JUndefined \<or> v = JNull then Inr [] else ToString v) of
        Inl e \<Rightarrow> Inl e
      | Inr s \<Rightarrow> (case elementStrings vs of Inl e \<Rightarrow> Inl e | Inr ss \<Rightarrow> Inr (s # ss)))"

text \<open>\<^verbatim>\<open>a ?? b\<close>, with a possibly nullish and with a definite right-hand side.\<close>

definition orElse :: "'a option \<Rightarrow> 'a option \<Rightarrow> 'a option" where
  "orElse a b = (case a of None \<Rightarrow> b | Some x \<Rightarrow> Some x)"

definition orDefault :: "'a option \<Rightarrow> 'a \<Rightarrow> 'a" where
  "orDefault a d = (case a of None \<Rightarrow> d | Some x \<Rightarrow> x)"

text \<open>\<^verbatim>\<open>!s\<close> on a possibly missing string: missing and empty strings are falsy.\<close>

definition falsy :: "string option \<Rightarrow> bool" where
  "falsy s = (case s of None \<Rightarrow> True | Some t \<Rightarrow> t = [])"

subsection \<open>String methods\<close>

definition toLowerCase_char :: "char \<Rightarrow> char" where
  "toLowerCase_char c =
     (case map_of (zip ''ABCDEFGHIJKLMNOPQRSTUVWXYZ'' ''abcdefghijklmnopqrstuvwxyz'') c of
        Some l \<Rightarrow> l
      | None \<Rightarrow> c)"

definition toLowerCase :: "string \<Rightarrow> string" where
  "toLowerCase s = map toLowerCase_char s"

fun startsWith :: "string \<Rightarrow> string \<Rightarrow> bool" where
  "startsWith s [] = True"
| "startsWith [] (p # ps) = False"
| "startsWith (c # cs) (p # ps) = (c = p \<and> startsWith cs ps)"

fun includes_str :: "string \<Rightarrow> string \<Rightarrow> bool" where
  "includes_str [] sub = (sub = [])"
| "includes_str (c # cs) sub = (startsWith (c # cs) sub \<or> includes_str cs sub)"

subsection \<open>The types of \<^verbatim>\<open>src/types.ts\<close>\<close>

text \<open>
  Field names that occur in two interfaces, or that name a HOL constant, carry a suffix:
  \<^verbatim>\<open>RepoPath.id\<close> is \<open>id_repo\<close>, \<^verbatim>\<open>UserContext.id\<close> is \<open>id_user\<close>,
  \<^verbatim>\<open>DownloadMetadata.metadata\<close> is \<open>metadata_flag\<close>, \<^verbatim>\<open>BeforeDownloadRequest.headers\<close> is
  \<open>headers_req\<close> and \<^verbatim>\<open>BeforeDownloadRequest.repoPath\<close> is \<open>repoPath_req\<close>.
\<close>

record RepoPath =
  key :: "string option"
  path :: "string option"
  id_repo :: string
  isRoot :: bool
  isFolder :: bool

datatype RepoType =
    REPO_TYPE_UNSPECIFIED
  | REPO_TYPE_LOCAL
  | REPO_TYPE_REMOTE
  | REPO_TYPE_FEDERATED
  | REPO_TYPE_UNRECOGNIZED

record DownloadMetadata =
  repoPath :: "RepoPath option"
  originalRepoPath :: "RepoPath option"
  name :: string
  headOnly :: bool
  checksum :: bool
  recursive :: bool
  modificationTime :: int
  directoryRequest :: bool
  metadata_flag :: bool
  lastModified :: int
  ifModifiedSince :: int
  servletContextUrl :: string
  uri :: string
  clientAddress :: "string option"
  zipResourcePath :: string
  zipResourceRequest :: bool
  replaceHeadRequestWithGet :: bool
  repoType :: RepoType

record UserContext =
  id_user :: "string option"
  isToken :: bool
  realm :: "string option"

record BeforeDownloadRequest =
  metadata :: "DownloadMetadata option"
  headers_req :: "(string \<times> string list) list"
  userContext :: "UserContext option"
  repoPath_req :: "RepoPath option"

datatype DownloadStatus =
    DOWNLOAD_UNSPECIFIED
  | DOWNLOAD_PROCEED
  | DOWNLOAD_STOP
  | DOWNLOAD_WARN
  | UNRECOGNIZED

record BeforeDownloadResponse =
  status :: DownloadStatus
  message :: string
  headers :: "(string \<times> string) list"

subsection \<open>The platform HTTP client and asynchronous computations\<close>

datatype http_call = Get string | Post string jsval

text \<open>A response carries the fields the worker probes.\<close>

datatype HttpResponse =
  HttpResponse (resp_status: "int option") (resp_statusCode: "int option") (resp_data: jsval)

text \<open>
  \<^verbatim>\<open>context.clients.platformHttp\<close>: each call throws or returns a response, which the
  worker does not trust to be an object (\<open>None\<close> is a nullish response).
\<close>

record PlatformContext =
  platformHttp :: "http_call \<Rightarrow> thrown + HttpResponse option"

type_synonym 'a js = "http_call list \<Rightarrow> (thrown + 'a) \<times> http_call list"

definition js_return :: "'a \<Rightarrow> 'a js" where
  "js_return x = (\<lambda>calls. (Inr x, calls))"

definition js_bind :: "'a js \<Rightarrow> ('a \<Rightarrow> 'b js) \<Rightarrow> 'b js" where
  "js_bind m f =
     (\<lambda>calls. case m calls of
        (Inl e, calls') \<Rightarrow> (Inl e, calls')
      | (Inr x, calls') \<Rightarrow> f x calls')"

definition js_try :: "'a js \<Rightarrow> (thrown \<Rightarrow> 'a js) \<Rightarrow> 'a js" where
  "js_try m handler =
     (\<lambda>calls. case m calls of
        (Inl e, calls') \<Rightarrow> handler e calls'
      | (Inr x, calls') \<Rightarrow> (Inr x, calls'))"

definition request :: "PlatformContext \<Rightarrow> http_call \<Rightarrow> HttpResponse option js" where
  "request context c = (\<lambda>calls. (platformHttp context c, calls @ [c]))"

text \<open>\<^verbatim>\<open>response?.data\<close>, \<^verbatim>\<open>response?.status\<close>, \<^verbatim>\<open>response?.statusCode\<close>.\<close>

definition opt_data :: "HttpResponse option \<Rightarrow> jsval" where
  "opt_data response = (case response of None \<Rightarrow> JUndefined | Some r \<Rightarrow> resp_data r)"

definition opt_status :: "HttpResponse option \<Rightarrow> int option" where
  "opt_status response = (case response of None \<Rightarrow> None | Some r \<Rightarrow> resp_status r)"

definition opt_statusCode :: "HttpResponse option \<Rightarrow> int option" where
  "opt_statusCode response = (case response of None \<Rightarrow> None | Some r \<Rightarrow> resp_statusCode r)"

text \<open>
  A template string or \<^verbatim>\<open>String(v)\<close> as a step of a computation, and
  \<^verbatim>\<open>error instanceof Error ? error.message : String(error)\<close>.
\<close>

definition render :: "jsval \<Rightarrow> string js" where
  "render v = (\<lambda>calls. (ToString v, calls))"

definition errMsg_of :: "thrown \<Rightarrow> string js" where
  "errMsg_of error = (case error of ErrorInstance m r \<Rightarrow> js_return m | Thrown v \<Rightarrow> render v)"

text \<open>\<^verbatim>\<open>(error as {response?: ...})?.response\<close>\<close>

definition response_of :: "thrown \<Rightarrow> jsval" where
  "response_of error = (case error of ErrorInstance m r \<Rightarrow> r | Thrown v \<Rightarrow> js_prop v ''response'')"

subsection \<open>The worker\<close>

definition XRAY_ARTIFACT_STATUS_API :: string where
  "XRAY_ARTIFACT_STATUS_API = ''/xray/api/v1/artifact/status''"

definition XRAY_FORCE_REINDEX_API :: string where
  "XRAY_FORCE_REINDEX_API = ''/xray/api/v1/forceReindex''"

definition isXrayIndexingRequest :: "BeforeDownloadRequest \<Rightarrow> bool" where
  "isXrayIndexingRequest data =
     (let userId = orDefault (map_option toLowerCase (Option.bind (userContext data) id_user)) [];
          realm' = orDefault (map_option toLowerCase (Option.bind (userContext data) realm)) [];
          clientAddr = toLowerCase (orDefault (Option.bind (metadata data) clientAddress) [])
      in if includes_str userId ''xray'' then True
         else if includes_str realm' ''xray'' then True
         else if clientAddr = ''127.0.0.1'' \<or> clientAddr = ''::1'' \<or> clientAddr = ''localhost''
                 \<or> startsWith clientAddr ''127.'' then True
         else False)"

text \<open>
  Each helper catches what the platform client throws. Its \<^verbatim>\<open>catch\<close> block builds the log
  line before it returns, and what building the log line throws leaves the helper.
\<close>

definition checkXrayAvailable :: "PlatformContext \<Rightarrow> bool js" where
  "checkXrayAvailable context =
     js_try
       (js_bind (request context (Get ''/xray/api/v1/system/ping''))
          (\<lambda>response. js_return (js_prop (opt_data response) ''status'' = JStr ''pong'')))
       (\<lambda>error. js_bind (errMsg_of error) (\<lambda>errMsg. js_return False))"

definition getArtifactScanStatus :: "PlatformContext \<Rightarrow> string \<Rightarrow> string \<Rightarrow> jsval js" where
  "getArtifactScanStatus context repo path' =
     js_try
       (js_bind
          (request context
             (Post XRAY_ARTIFACT_STATUS_API (JObj [(''repo'', JStr repo), (''path'', JStr path')])))
          (\<lambda>response.
             if truthy (js_prop (js_prop (opt_data response) ''overall'') ''status'')
             then js_return (js_prop (js_prop (opt_data response) ''overall'') ''status'')
             else js_return JNull))
       (\<lambda>error. js_bind (errMsg_of error) (\<lambda>errMsg.
          let statusCode = js_prop (response_of error) ''status''
          in js_bind
               (if truthy statusCode
                then js_bind (render statusCode) (\<lambda>code. js_return (''(HTTP '' @ code @ '')''))
                else js_return [])
               (\<lambda>suffix. js_return JNull)))"

text \<open>
  Leaving the \<^verbatim>\<open>try\<close> statement without a \<^verbatim>\<open>return\<close> (a status code below 200, or the
  end of the \<^verbatim>\<open>catch\<close> block) reaches the final \<^verbatim>\<open>return false\<close>.
\<close>

definition triggerForceReindexArtifact :: "PlatformContext \<Rightarrow> string \<Rightarrow> string \<Rightarrow> bool js" where
  "triggerForceReindexArtifact context repo path' =
     js_try
       (js_bind
          (request context
             (Post XRAY_FORCE_REINDEX_API
                (JObj [(''artifacts'', JArr [JObj [(''repository'', JStr repo), (''path'', JStr path')]])])))
          (\<lambda>response.
             let statusCode =
                   orElse (opt_status response)
                     (orElse (opt_statusCode response) (opt_status response))
             in if (case statusCode of None \<Rightarrow> False | Some c \<Rightarrow> 200 \<le> c \<and> c < 300)
                then js_return True
                else if (case statusCode of None \<Rightarrow> True | Some c \<Rightarrow> 200 \<le> c)
                then js_return True
                else js_return False))
       (\<lambda>error. js_bind (errMsg_of error) (\<lambda>errMsg.
          let statusCode = js_prop (response_of error) ''status'';
              responseBody = js_prop (response_of error) ''data''
          in js_bind
               (if statusCode = JUndefined \<or> statusCode = JNull then js_return ''?''
                else render statusCode)
               (\<lambda>code. js_return False)))"

text \<open>The body of the handler's \<^verbatim>\<open>try\<close> block (lines 57 to 102).\<close>

definition scanValidation :: "PlatformContext \<Rightarrow> string \<Rightarrow> string \<Rightarrow> BeforeDownloadResponse js" where
  \<open>scanValidation context repoKey artifactPath =
     js_bind (checkXrayAvailable context) (\<lambda>isXrayAvailable.
       if \<not> isXrayAvailable
       then js_return
         \<lparr>status = DOWNLOAD_WARN,
          message = ''Could not check Xray scan status. Xray may be unavailable. Proceeding with warning.'',
          headers = []\<rparr>
       else js_bind (getArtifactScanStatus context repoKey artifactPath) (\<lambda>scanStatus.
         let isScanned =
               (scanStatus \<noteq> JNull \<and> (scanStatus = JStr ''DONE'' \<or> scanStatus = JStr ''PARTIAL''))
         in if isScanned
            then js_bind (render scanStatus) (\<lambda>shown. js_return
              \<lparr>status = DOWNLOAD_PROCEED,
               message = ''Artifact is scanned (status: '' @ shown @ ''). Proceeding with download.'',
               headers = []\<rparr>)
            else js_bind (triggerForceReindexArtifact context repoKey artifactPath)
              (\<lambda>reindexTriggered.
                 if reindexTriggered
                 then js_return
                   \<lparr>status = DOWNLOAD_STOP,
                    message = ''Artifact is not scanned. Reindex has been triggered for this artifact. Please try again shortly once the reindex completes.'',
                    headers = []\<rparr>
                 else js_return
                   \<lparr>status = DOWNLOAD_STOP,
                    message = ''Artifact is not scanned. Could not trigger reindex. Please run "Reindex existing artifacts" in Xray for this repo, then try again.'',
                    headers = []\<rparr>)))\<close>

text \<open>
  The exported handler (lines 20 to 112). After the first guard \<open>repoKey\<close> and
  \<open>artifactPath\<close> are non-empty strings, so \<open>the\<close> is applied to \<open>Some\<close> only. The \<^verbatim>\<open>catch\<close>
  block builds the message from the thrown value, which can throw in its turn.
\<close>

definition default_handler :: "PlatformContext \<Rightarrow> BeforeDownloadRequest \<Rightarrow> BeforeDownloadResponse js" where
  "default_handler context data =
     (let repoKey = Option.bind (Option.bind (metadata data) repoPath) key;
          artifactPath = Option.bind (Option.bind (metadata data) repoPath) path
      in if falsy repoKey \<or> falsy artifactPath
         then js_return
           \<lparr>status = DOWNLOAD_STOP,
            message = ''Unable to validate artifact. Missing repository or path information.'',
            headers = []\<rparr>
         else if orDefault (map_option isFolder (Option.bind (metadata data) repoPath)) False
                 \<or> orDefault (map_option isRoot (Option.bind (metadata data) repoPath)) False
         then js_return
           \<lparr>status = DOWNLOAD_PROCEED,
            message = ''Skipping folder/root - scan check only applies to artifacts.'',
            headers = []\<rparr>
         else if isXrayIndexingRequest data
         then js_return
           \<lparr>status = DOWNLOAD_PROCEED,
            message = ''Allowing Xray indexing request.'',
            headers = []\<rparr>
         else js_try
           (scanValidation context (the repoKey) (the artifactPath))
           (\<lambda>error. js_bind (errMsg_of error) (\<lambda>errMsg. js_return
              \<lparr>status = DOWNLOAD_STOP,
               message = ''Error during scan validation: '' @ errMsg @ ''. Please try again.'',
               headers = []\<rparr>)))"

subsection \<open>Vocabulary of the properties\<close>

text \<open>
  \<^verbatim>\<open>data.metadata?.repoPath\<close> and the two values the handler reads from it first; a
  value is present when the guard \<^verbatim>\<open>!repoKey || !artifactPath\<close> lets it pass.
\<close>

definition target :: "BeforeDownloadRequest \<Rightarrow> RepoPath option" where
  "target data = Option.bind (metadata data) repoPath"

definition repoKey_of :: "BeforeDownloadRequest \<Rightarrow> string option" where
  "repoKey_of data = Option.bind (target data) key"

definition artifactPath_of :: "BeforeDownloadRequest \<Rightarrow> string option" where
  "artifactPath_of data = Option.bind (target data) path"

definition folderOrRoot :: "BeforeDownloadRequest \<Rightarrow> bool" where
  "folderOrRoot data = (case target data of None \<Rightarrow> False | Some rp \<Rightarrow> isFolder rp \<or> isRoot rp)"

text \<open>
  The classifier's result \<open>Applicable\<close>: repository key and path are non-empty strings, the
  target is neither folder nor root, and the request is not Xray's own traffic.
\<close>

definition applicable :: "BeforeDownloadRequest \<Rightarrow> string \<Rightarrow> string \<Rightarrow> bool" where
  "applicable data k p =
     (repoKey_of data = Some k \<and> k \<noteq> [] \<and> artifactPath_of data = Some p \<and> p \<noteq> []
      \<and> \<not> folderOrRoot data \<and> \<not> isXrayIndexingRequest data)"

text \<open>The three calls to the scanning service.\<close>

definition pingCall :: http_call where
  "pingCall = Get ''/xray/api/v1/system/ping''"

definition statusCall :: "string \<Rightarrow> string \<Rightarrow> http_call" where
  "statusCall k p =
     Post ''/xray/api/v1/artifact/status'' (JObj [(''repo'', JStr k), (''path'', JStr p)])"

definition reindexCall :: "string \<Rightarrow> string \<Rightarrow> http_call" where
  "reindexCall k p =
     Post ''/xray/api/v1/forceReindex''
       (JObj [(''artifacts'', JArr [JObj [(''repository'', JStr k), (''path'', JStr p)]])])"

fun toStatusEndpoint :: "http_call \<Rightarrow> bool" where
  "toStatusEndpoint (Post url body) = (url = ''/xray/api/v1/artifact/status'')"
| "toStatusEndpoint (Get url) = False"

fun toReindexEndpoint :: "http_call \<Rightarrow> bool" where
  "toReindexEndpoint (Post url body) = (url = ''/xray/api/v1/forceReindex'')"
| "toReindexEndpoint (Get url) = False"

text \<open>
  The liveness probe succeeds when the ping returns a payload whose \<^verbatim>\<open>status\<close> is
  \<^verbatim>\<open>'pong'\<close>; \<open>overallStatus\<close> is \<^verbatim>\<open>response?.data?.overall?.status\<close>.
\<close>

definition alive :: "PlatformContext \<Rightarrow> bool" where
  "alive context =
     (case platformHttp context pingCall of
        Inl e \<Rightarrow> False
      | Inr response \<Rightarrow> js_prop (opt_data response) ''status'' = JStr ''pong'')"

definition overallStatus :: "HttpResponse option \<Rightarrow> jsval" where
  "overallStatus response = js_prop (js_prop (opt_data response) ''overall'') ''status''"

text \<open>The responses of the handler.\<close>

definition respond :: "DownloadStatus \<Rightarrow> string \<Rightarrow> BeforeDownloadResponse" where
  "respond s m = \<lparr>status = s, message = m, headers = []\<rparr>"

definition cannotValidate :: BeforeDownloadResponse where
  "cannotValidate =
     respond DOWNLOAD_STOP ''Unable to validate artifact. Missing repository or path information.''"

definition skippedFolderOrRoot :: BeforeDownloadResponse where
  "skippedFolderOrRoot =
     respond DOWNLOAD_PROCEED ''Skipping folder/root - scan check only applies to artifacts.''"

definition allowedIndexing :: BeforeDownloadResponse where
  "allowedIndexing = respond DOWNLOAD_PROCEED ''Allowing Xray indexing request.''"

definition warnedUnavailable :: BeforeDownloadResponse where
  "warnedUnavailable =
     respond DOWNLOAD_WARN
       ''Could not check Xray scan status. Xray may be unavailable. Proceeding with warning.''"

definition scanned :: "string \<Rightarrow> BeforeDownloadResponse" where
  "scanned s =
     respond DOWNLOAD_PROCEED (''Artifact is scanned (status: '' @ s @ ''). Proceeding with download.'')"

definition remediationTriggered :: BeforeDownloadResponse where
  "remediationTriggered =
     respond DOWNLOAD_STOP
       ''Artifact is not scanned. Reindex has been triggered for this artifact. Please try again shortly once the reindex completes.''"

definition manualReindexNeeded :: BeforeDownloadResponse where
  \<open>manualReindexNeeded =
     respond DOWNLOAD_STOP
       ''Artifact is not scanned. Could not trigger reindex. Please run "Reindex existing artifacts" in Xray for this repo, then try again.''\<close>

definition faultStop :: "string \<Rightarrow> BeforeDownloadResponse" where
  "faultStop errMsg =
     respond DOWNLOAD_STOP (''Error during scan validation: '' @ errMsg @ ''. Please try again.'')"

text \<open>One invocation of the handler, from a state in which no call has been made.\<close>

definition run ::
  "PlatformContext \<Rightarrow> BeforeDownloadRequest \<Rightarrow> (thrown + BeforeDownloadResponse) \<times> http_call list" where
  "run context data = default_handler context data []"

text \<open>
  A value renders when \<^verbatim>\<open>String(v)\<close> returns. The message of a thrown value renders when
  it is an \<^verbatim>\<open>Error\<close> instance or a value that renders. The status helper can log a thrown
  value when its message renders and \<^verbatim>\<open>error.response.status\<close> is falsy or renders; the
  reindex helper when its message renders and \<^verbatim>\<open>error.response.status\<close> is nullish or
  renders.
\<close>

definition renders :: "jsval \<Rightarrow> bool" where
  "renders v = (case ToString v of Inl e \<Rightarrow> False | Inr s \<Rightarrow> True)"

definition messageRenders :: "thrown \<Rightarrow> bool" where
  "messageRenders error = (case error of ErrorInstance m r \<Rightarrow> True | Thrown v \<Rightarrow> renders v)"

definition statusFailureLogs :: "thrown \<Rightarrow> bool" where
  "statusFailureLogs error =
     (messageRenders error
      \<and> (if truthy (js_prop (response_of error) ''status'')
         then renders (js_prop (response_of error) ''status'') else True))"

definition reindexFailureLogs :: "thrown \<Rightarrow> bool" where
  "reindexFailureLogs error =
     (messageRenders error
      \<and> (js_prop (response_of error) ''status'' = JUndefined
         \<or> js_prop (response_of error) ''status'' = JNull
         \<or> renders (js_prop (response_of error) ''status'')))"

text \<open>
  What each helper makes of the platform's reply: whether Xray is available, the scan
  status handed to the handler, the status code the reindex helper settles on, and whether
  it reports success. \<open>None\<close> stands for the \<^verbatim>\<open>TypeError\<close> that leaves the helper when its
  \<^verbatim>\<open>catch\<close> block cannot build the log line.
\<close>

definition availability_of :: "thrown + HttpResponse option \<Rightarrow> bool option" where
  "availability_of reply =
     (case reply of
        Inl e \<Rightarrow> if messageRenders e then Some False else None
      | Inr response \<Rightarrow> Some (js_prop (opt_data response) ''status'' = JStr ''pong''))"

definition scanStatus_of :: "thrown + HttpResponse option \<Rightarrow> jsval option" where
  "scanStatus_of reply =
     (case reply of
        Inl e \<Rightarrow> if statusFailureLogs e then Some JNull else None
      | Inr response \<Rightarrow>
          Some (if truthy (overallStatus response) then overallStatus response else JNull))"

definition statusCode_of :: "HttpResponse option \<Rightarrow> int option" where
  "statusCode_of response = orElse (opt_status response) (opt_statusCode response)"

definition reindexTriggered_of :: "thrown + HttpResponse option \<Rightarrow> bool option" where
  "reindexTriggered_of reply =
     (case reply of
        Inl e \<Rightarrow> if reindexFailureLogs e then Some False else None
      | Inr response \<Rightarrow>
          Some (case statusCode_of response of None \<Rightarrow> True | Some c \<Rightarrow> 200 \<le> c))"

text \<open>
  The originator of a request: \<^verbatim>\<open>data.userContext?.id\<close>, \<^verbatim>\<open>data.userContext?.realm\<close>
  and \<^verbatim>\<open>data.metadata?.clientAddress\<close>. A text contains a word in any case when some
  segment of it is the word once lowered.
\<close>

definition userId_of :: "BeforeDownloadRequest \<Rightarrow> string option" where
  "userId_of data = Option.bind (userContext data) id_user"

definition realm_of :: "BeforeDownloadRequest \<Rightarrow> string option" where
  "realm_of data = Option.bind (userContext data) realm"

definition clientAddress_of :: "BeforeDownloadRequest \<Rightarrow> string option" where
  "clientAddress_of data = Option.bind (metadata data) clientAddress"

definition containsAnyCase :: "string option \<Rightarrow> string \<Rightarrow> bool" where
  "containsAnyCase s word = (\<exists>t u w v. s = Some t \<and> t = u @ w @ v \<and> toLowerCase w = word)"

subsection \<open>Sample requests and sample scanning services\<close>

text \<open>
  The request of the specification's end-to-end example: alice, from 10.0.0.5, asks for
  \<^verbatim>\<open>a/b/lib.jar\<close> in \<^verbatim>\<open>generic-local\<close>.
\<close>

definition libJar :: RepoPath where
  "libJar =
     \<lparr>key = Some ''generic-local'', path = Some ''a/b/lib.jar'',
      id_repo = ''generic-local:a/b/lib.jar'', isRoot = False, isFolder = False\<rparr>"

definition downloadOf :: "RepoPath option \<Rightarrow> string option \<Rightarrow> DownloadMetadata" where
  "downloadOf rp addr =
     \<lparr>repoPath = rp, originalRepoPath = rp, name = ''lib.jar'', headOnly = False,
      checksum = False, recursive = False, modificationTime = 0, directoryRequest = False,
      metadata_flag = False, lastModified = 0, ifModifiedSince = 0,
      servletContextUrl = ''https://repo.example.org/artifactory'', uri = ''/generic-local/a/b/lib.jar'',
      clientAddress = addr, zipResourcePath = [], zipResourceRequest = False,
      replaceHeadRequestWithGet = False, repoType = REPO_TYPE_LOCAL\<rparr>"

definition userOf :: "string option \<Rightarrow> string option \<Rightarrow> UserContext" where
  "userOf i r = \<lparr>id_user = i, isToken = False, realm = r\<rparr>"

definition requestOf :: "UserContext option \<Rightarrow> DownloadMetadata option \<Rightarrow> BeforeDownloadRequest" where
  "requestOf u m = \<lparr>metadata = m, headers_req = [], userContext = u, repoPath_req = None\<rparr>"

definition aliceRequest :: BeforeDownloadRequest where
  "aliceRequest =
     requestOf (Some (userOf (Some ''alice'') (Some ''internal'')))
       (Some (downloadOf (Some libJar) (Some ''10.0.0.5'')))"

text \<open>
  A scanning service given by its three replies: to the ping, to the status query and to
  the reindex request.
\<close>

definition xray ::
  "thrown + HttpResponse option \<Rightarrow> thrown + HttpResponse option \<Rightarrow> thrown + HttpResponse option
     \<Rightarrow> PlatformContext" where
  "xray pingReply statusReply reindexReply =
     \<lparr>platformHttp = (\<lambda>c. case c of
        Get url \<Rightarrow> pingReply
      | Post url body \<Rightarrow>
          if url = ''/xray/api/v1/artifact/status'' then statusReply else reindexReply)\<rparr>"

definition ok :: "jsval \<Rightarrow> thrown + HttpResponse option" where
  "ok payload = Inr (Some (HttpResponse (Some 200) None payload))"

definition pong :: "thrown + HttpResponse option" where
  "pong = ok (JObj [(''status'', JStr ''pong'')])"

definition overall :: "string \<Rightarrow> thrown + HttpResponse option" where
  "overall s = ok (JObj [(''overall'', JObj [(''status'', JStr s)])])"

definition answered :: "int \<Rightarrow> thrown + HttpResponse option" where
  "answered c = Inr (Some (HttpResponse (Some c) None (JObj [])))"

definition failed :: "string \<Rightarrow> thrown + HttpResponse option" where
  "failed m = Inl (ErrorInstance m JUndefined)"

text \<open>
  A platform client that rejects with a value that is no \<^verbatim>\<open>Error\<close>, and the object
  \<^verbatim>\<open>{toString: 1}\<close>, which has no primitive form.
\<close>

definition rejected :: "jsval \<Rightarrow> thrown + HttpResponse option" where
  "rejected v = Inl (Thrown v)"

definition unprintable :: jsval where
  "unprintable = JObj [(''toString'', JNum ''1'')]"


section \<open>How one invocation runs\<close>

lemmas js_defs = js_return_def js_bind_def js_try_def request_def render_def
lemmas vocab_defs = target_def repoKey_of_def artifactPath_of_def folderOrRoot_def applicable_def
lemmas response_defs = respond_def cannotValidate_def skippedFolderOrRoot_def allowedIndexing_def
  warnedUnavailable_def scanned_def remediationTriggered_def manualReindexNeeded_def faultStop_def
lemmas call_defs = pingCall_def statusCall_def reindexCall_def
lemmas sample_defs = libJar_def downloadOf_def userOf_def requestOf_def aliceRequest_def xray_def
  ok_def pong_def overall_def answered_def failed_def rejected_def unprintable_def
lemmas originator_defs = userId_of_def realm_of_def clientAddress_of_def
lemmas lower_defs = toLowerCase_def toLowerCase_char_def
lemmas logs_defs = messageRenders_def statusFailureLogs_def reindexFailureLogs_def

subsection \<open>Conversion to a string\<close>

lemma ToString_throws:
  "ToString v = Inl e \<Longrightarrow> e = cannotConvert"
  "elementStrings vs = Inl e \<Longrightarrow> e = cannotConvert"
  by (induction v and vs arbitrary: e and e rule: ToString_elementStrings.induct)
     (auto split: sum.splits if_splits)

lemma ToString_cases:
  "ToString v = (if renders v then ToString v else Inl cannotConvert)"
  by (auto simp: renders_def split: sum.splits dest: ToString_throws(1))

lemma renders_simps [simp]:
  "renders JUndefined" "renders JNull" "renders (JBool b)" "renders (JNum t)" "renders (JStr s)"
  "renders (JObj props) \<longleftrightarrow> map_of props ''toString'' = None"
  by (simp_all add: renders_def)

lemma ToString_examples:
  "ToString (JArr [JNum ''503'', JNull, JArr [JStr ''a'', JBool True], JObj [(''code'', JNum ''7'')]])
     = Inr ''503,,a,true,[object Object]''"
  "ToString unprintable = Inl (ErrorInstance ''Cannot convert object to primitive value'' JUndefined)"
  "ToString (JArr [JStr ''a'', JArr [unprintable]])
     = Inl (ErrorInstance ''Cannot convert object to primitive value'' JUndefined)"
  by (simp_all add: unprintable_def cannotConvert_def)

lemma render_run:
  "render v calls = ((if renders v then ToString v else Inl cannotConvert), calls)"
  using ToString_cases[of v] by (simp add: render_def)

lemma errMsg_of_run:
  "errMsg_of e calls =
     ((if messageRenders e
       then (case e of ErrorInstance m r \<Rightarrow> Inr m | Thrown v \<Rightarrow> ToString v)
       else Inl cannotConvert), calls)"
  by (cases e) (simp_all add: errMsg_of_def messageRenders_def render_run js_return_def)

lemma errMsg_of_returns:
  "messageRenders e \<Longrightarrow> \<exists>m. errMsg_of e calls = (Inr m, calls)"
  by (cases e) (auto simp: errMsg_of_run messageRenders_def renders_def split: sum.splits)

subsection \<open>The helpers\<close>

lemma checkXrayAvailable_run:
  "checkXrayAvailable ctx calls =
     ((case availability_of (platformHttp ctx pingCall) of
         None \<Rightarrow> Inl cannotConvert
       | Some b \<Rightarrow> Inr b), calls @ [pingCall])"
proof (cases "platformHttp ctx pingCall")
  case (Inl e)
  show ?thesis
  proof (cases "messageRenders e")
    case True
    from errMsg_of_returns[OF True] obtain m
      where "errMsg_of e (calls @ [pingCall]) = (Inr m, calls @ [pingCall])" by blast
    with Inl True show ?thesis
      by (simp add: checkXrayAvailable_def js_defs availability_of_def pingCall_def)
  next
    case False
    with Inl show ?thesis
      by (simp add: checkXrayAvailable_def js_defs availability_of_def pingCall_def errMsg_of_run)
  qed
next
  case (Inr response)
  then show ?thesis
    by (simp add: checkXrayAvailable_def js_defs availability_of_def pingCall_def)
qed

lemma getArtifactScanStatus_run:
  "getArtifactScanStatus ctx k p calls =
     ((case scanStatus_of (platformHttp ctx (statusCall k p)) of
         None \<Rightarrow> Inl cannotConvert
       | Some v \<Rightarrow> Inr v), calls @ [statusCall k p])"
proof (cases "platformHttp ctx (statusCall k p)")
  case (Inl e)
  show ?thesis
  proof (cases "messageRenders e")
    case True
    from errMsg_of_returns[OF True] obtain m
      where "errMsg_of e (calls @ [statusCall k p]) = (Inr m, calls @ [statusCall k p])" by blast
    with Inl True show ?thesis
      by (auto simp: getArtifactScanStatus_def js_defs scanStatus_of_def statusCall_def
          XRAY_ARTIFACT_STATUS_API_def statusFailureLogs_def Let_def renders_def
          split: sum.splits dest: ToString_throws(1))
  next
    case False
    with Inl show ?thesis
      by (simp add: getArtifactScanStatus_def js_defs scanStatus_of_def statusCall_def
          XRAY_ARTIFACT_STATUS_API_def statusFailureLogs_def errMsg_of_run)
  qed
next
  case (Inr response)
  then show ?thesis
    by (simp add: getArtifactScanStatus_def js_defs scanStatus_of_def statusCall_def
        overallStatus_def XRAY_ARTIFACT_STATUS_API_def)
qed

lemma triggerForceReindexArtifact_run:
  "triggerForceReindexArtifact ctx k p calls =
     ((case reindexTriggered_of (platformHttp ctx (reindexCall k p)) of
         None \<Rightarrow> Inl cannotConvert
       | Some b \<Rightarrow> Inr b), calls @ [reindexCall k p])"
proof (cases "platformHttp ctx (reindexCall k p)")
  case (Inl e)
  show ?thesis
  proof (cases "messageRenders e")
    case True
    from errMsg_of_returns[OF True] obtain m
      where "errMsg_of e (calls @ [reindexCall k p]) = (Inr m, calls @ [reindexCall k p])" by blast
    with Inl True show ?thesis
      by (auto simp: triggerForceReindexArtifact_def js_defs reindexTriggered_of_def reindexCall_def
          XRAY_FORCE_REINDEX_API_def reindexFailureLogs_def Let_def renders_def
          split: sum.splits dest: ToString_throws(1))
  next
    case False
    with Inl show ?thesis
      by (simp add: triggerForceReindexArtifact_def js_defs reindexTriggered_of_def reindexCall_def
          XRAY_FORCE_REINDEX_API_def reindexFailureLogs_def errMsg_of_run)
  qed
next
  case (Inr response)
  then show ?thesis
    by (auto simp: triggerForceReindexArtifact_def js_defs reindexTriggered_of_def reindexCall_def
        statusCode_of_def orElse_def XRAY_FORCE_REINDEX_API_def Let_def split: option.splits)
qed

subsection \<open>The handler\<close>

lemma run_missing:
  "falsy (repoKey_of data) \<or> falsy (artifactPath_of data) \<Longrightarrow>
   run ctx data = (Inr cannotValidate, [])"
  by (auto simp: run_def default_handler_def vocab_defs response_defs js_return_def Let_def)

lemma run_folderOrRoot:
  "\<not> falsy (repoKey_of data) \<Longrightarrow> \<not> falsy (artifactPath_of data) \<Longrightarrow> folderOrRoot data \<Longrightarrow>
   run ctx data = (Inr skippedFolderOrRoot, [])"
  by (auto simp: run_def default_handler_def vocab_defs response_defs js_return_def Let_def
      orDefault_def split: option.splits)

lemma run_indexing:
  "\<not> falsy (repoKey_of data) \<Longrightarrow> \<not> falsy (artifactPath_of data) \<Longrightarrow> \<not> folderOrRoot data \<Longrightarrow>
   isXrayIndexingRequest data \<Longrightarrow>
   run ctx data = (Inr allowedIndexing, [])"
  by (auto simp: run_def default_handler_def vocab_defs response_defs js_return_def Let_def
      orDefault_def split: option.splits)

lemma default_applicable:
  "applicable data k p \<Longrightarrow>
   default_handler ctx data calls =
     js_try (scanValidation ctx k p)
       (\<lambda>error. js_bind (errMsg_of error) (\<lambda>errMsg. js_return (faultStop errMsg))) calls"
  by (auto simp: default_handler_def vocab_defs falsy_def response_defs Let_def orDefault_def
      split: option.splits)

lemma applicable_cases:
  "falsy (repoKey_of data) \<or> falsy (artifactPath_of data) \<or> folderOrRoot data
   \<or> isXrayIndexingRequest data \<or> (\<exists>k p. applicable data k p)"
  by (auto simp: applicable_def falsy_def split: option.splits)

lemma run_applicable:
  assumes "applicable data k p"
  shows "run ctx data =
    (case availability_of (platformHttp ctx pingCall) of
       None \<Rightarrow> (Inr (faultStop ''Cannot convert object to primitive value''), [pingCall])
     | Some False \<Rightarrow> (Inr warnedUnavailable, [pingCall])
     | Some True \<Rightarrow>
         (case scanStatus_of (platformHttp ctx (statusCall k p)) of
            None \<Rightarrow> (Inr (faultStop ''Cannot convert object to primitive value''),
                      [pingCall, statusCall k p])
          | Some v \<Rightarrow>
              if v = JStr ''DONE'' then (Inr (scanned ''DONE''), [pingCall, statusCall k p])
              else if v = JStr ''PARTIAL'' then (Inr (scanned ''PARTIAL''), [pingCall, statusCall k p])
              else (case reindexTriggered_of (platformHttp ctx (reindexCall k p)) of
                      None \<Rightarrow> (Inr (faultStop ''Cannot convert object to primitive value''),
                                [pingCall, statusCall k p, reindexCall k p])
                    | Some True \<Rightarrow> (Inr remediationTriggered,
                                     [pingCall, statusCall k p, reindexCall k p])
                    | Some False \<Rightarrow> (Inr manualReindexNeeded,
                                      [pingCall, statusCall k p, reindexCall k p]))))"
  unfolding run_def default_applicable[OF assms]
  by (simp add: scanValidation_def js_try_def js_bind_def js_return_def render_def
      checkXrayAvailable_run getArtifactScanStatus_run triggerForceReindexArtifact_run
      response_defs cannotConvert_def errMsg_of_def
      split: option.splits bool.splits)

lemma alive_available:
  "alive ctx \<Longrightarrow> availability_of (platformHttp ctx pingCall) = Some True"
  by (auto simp: alive_def availability_of_def split: sum.splits)

lemma run_calls_cases:
  "snd (run ctx data) = []
   \<or> (\<exists>k p. applicable data k p
        \<and> (snd (run ctx data) = [pingCall]
           \<or> snd (run ctx data) = [pingCall, statusCall k p]
           \<or> snd (run ctx data) = [pingCall, statusCall k p, reindexCall k p]))"
proof -
  consider "falsy (repoKey_of data) \<or> falsy (artifactPath_of data)"
    | "\<not> falsy (repoKey_of data)" "\<not> falsy (artifactPath_of data)" "folderOrRoot data"
    | "\<not> falsy (repoKey_of data)" "\<not> falsy (artifactPath_of data)" "\<not> folderOrRoot data"
      "isXrayIndexingRequest data"
    | k p where "applicable data k p"
    using applicable_cases by blast
  then show ?thesis
  proof cases
    case 1
    then show ?thesis by (simp add: run_missing)
  next
    case 2
    then show ?thesis by (simp add: run_folderOrRoot)
  next
    case 3
    then show ?thesis by (simp add: run_indexing)
  next
    case 4
    show ?thesis
      by (rule disjI2, rule exI[of _ k], rule exI[of _ p])
         (simp add: 4 run_applicable[OF 4] split: option.splits bool.splits)
  qed
qed


lemma status_simps [simp]:
  "status cannotValidate = DOWNLOAD_STOP" "status skippedFolderOrRoot = DOWNLOAD_PROCEED"
  "status allowedIndexing = DOWNLOAD_PROCEED" "status warnedUnavailable = DOWNLOAD_WARN"
  "status (scanned s) = DOWNLOAD_PROCEED" "status remediationTriggered = DOWNLOAD_STOP"
  "status manualReindexNeeded = DOWNLOAD_STOP" "status (faultStop m) = DOWNLOAD_STOP"
  by (simp_all add: response_defs)

lemma run_stops_after_status_query:
  assumes "applicable data k p" and "alive ctx"
    and "scanStatus_of (platformHttp ctx (statusCall k p)) \<noteq> Some (JStr ''DONE'')"
    and "scanStatus_of (platformHttp ctx (statusCall k p)) \<noteq> Some (JStr ''PARTIAL'')"
  shows "\<exists>m. fst (run ctx data) = Inr (respond DOWNLOAD_STOP m)"
  using assms(3,4)
  by (auto simp: run_applicable[OF assms(1)] alive_available[OF assms(2)] response_defs
      split: option.splits bool.splits)

lemma endpoint_simps [simp]:
  "\<not> toStatusEndpoint pingCall" "\<not> toReindexEndpoint pingCall"
  "toStatusEndpoint (statusCall k p)" "\<not> toReindexEndpoint (statusCall k p)"
  "\<not> toStatusEndpoint (reindexCall k p)" "toReindexEndpoint (reindexCall k p)"
  by (simp_all add: call_defs)

lemma reindexCall_inject [simp]: "reindexCall k p = reindexCall k' p' \<longleftrightarrow> k = k' \<and> p = p'"
  by (auto simp: reindexCall_def)

lemma reindexCall_distinct [simp]:
  "reindexCall k p \<noteq> pingCall" "reindexCall k p \<noteq> statusCall k' p'"
  by (simp_all add: call_defs)


subsection \<open>What the string methods compute\<close>

lemma startsWith_take: "startsWith s p \<longleftrightarrow> take (length p) s = p"
  by (induction s p rule: startsWith.induct) auto

lemma includes_str_iff: "includes_str s sub \<longleftrightarrow> (\<exists>u v. s = u @ sub @ v)"
proof (induction s)
  case Nil
  then show ?case by auto
next
  case (Cons c cs)
  show ?case
  proof
    assume "includes_str (c # cs) sub"
    then consider "startsWith (c # cs) sub" | "includes_str cs sub" by auto
    then show "\<exists>u v. c # cs = u @ sub @ v"
    proof cases
      case 1
      then have "c # cs = [] @ sub @ drop (length sub) (c # cs)"
        by (metis startsWith_take append_Nil append_take_drop_id)
      then show ?thesis by blast
    next
      case 2
      with Cons obtain u v where "cs = u @ sub @ v" by blast
      then have "c # cs = (c # u) @ sub @ v" by simp
      then show ?thesis by blast
    qed
  next
    assume "\<exists>u v. c # cs = u @ sub @ v"
    then obtain u v where uv: "c # cs = u @ sub @ v" by blast
    show "includes_str (c # cs) sub"
    proof (cases u)
      case Nil
      with uv have "take (length sub) (c # cs) = sub" by (metis append_Nil append_eq_conv_conj)
      then show ?thesis by (simp add: startsWith_take del: startsWith.simps)
    next
      case (Cons a u')
      with uv have "cs = u' @ sub @ v" by simp
      with Cons.IH show ?thesis by auto
    qed
  qed
qed

lemma containsAnyCase_iff:
  "containsAnyCase s word \<longleftrightarrow> (\<exists>t. s = Some t \<and> includes_str (toLowerCase t) word)"
proof
  assume "containsAnyCase s word"
  then obtain t u w v where "s = Some t" "t = u @ w @ v" "toLowerCase w = word"
    by (auto simp: containsAnyCase_def)
  then have "s = Some t \<and> toLowerCase t = toLowerCase u @ word @ toLowerCase v"
    by (simp add: toLowerCase_def)
  then show "\<exists>t. s = Some t \<and> includes_str (toLowerCase t) word"
    unfolding includes_str_iff by blast
next
  assume "\<exists>t. s = Some t \<and> includes_str (toLowerCase t) word"
  then obtain t u' v' where t: "s = Some t" and "map toLowerCase_char t = u' @ word @ v'"
    unfolding includes_str_iff toLowerCase_def by blast
  then obtain u r where "t = u @ r" "word @ v' = map toLowerCase_char r"
    unfolding map_eq_append_conv by blast
  then obtain w v where "t = u @ w @ v" "map toLowerCase_char w = word"
    unfolding append_eq_map_conv by blast
  with t show "containsAnyCase s word"
    unfolding containsAnyCase_def toLowerCase_def by blast
qed

lemma startsWith_loopback: "startsWith s ''127.'' \<longleftrightarrow> take 4 s = ''127.''"
  by (simp add: startsWith_take eval_nat_numeral del: startsWith.simps)

lemma toLowerCase_Nil: "toLowerCase [] = []"
  by (simp add: toLowerCase_def)

lemma toLowerCase_loopback_prefix:
  assumes "take 4 a = ''127.''"
  shows "startsWith (toLowerCase a) ''127.''"
proof -
  have "take 4 (toLowerCase a) = toLowerCase (take 4 a)"
    by (simp add: toLowerCase_def take_map)
  also have "\<dots> = ''127.''"
    by (simp add: assms lower_defs)
  finally show ?thesis by (simp only: startsWith_loopback)
qed

lemma isXrayIndexingRequest_iff:
  "isXrayIndexingRequest data \<longleftrightarrow>
     containsAnyCase (userId_of data) ''xray'' \<or> containsAnyCase (realm_of data) ''xray''
     \<or> (\<exists>a. clientAddress_of data = Some a
          \<and> (toLowerCase a = ''127.0.0.1'' \<or> toLowerCase a = ''::1'' \<or> toLowerCase a = ''localhost''
             \<or> take 4 (toLowerCase a) = ''127.''))"
  unfolding containsAnyCase_iff
  by (cases "userId_of data"; cases "realm_of data"; cases "clientAddress_of data")
     (simp_all add: isXrayIndexingRequest_def originator_defs orDefault_def Let_def
        startsWith_loopback toLowerCase_Nil del: startsWith.simps)


lemma applicable_aliceRequest: "applicable aliceRequest ''generic-local'' ''a/b/lib.jar''"
  by (simp add: vocab_defs sample_defs isXrayIndexingRequest_def orDefault_def lower_defs)

lemma xray_replies [simp]:
  "platformHttp (xray a b c) pingCall = a"
  "platformHttp (xray a b c) (statusCall k p) = b"
  "platformHttp (xray a b c) (reindexCall k p) = c"
  by (simp_all add: xray_def call_defs)

lemma alive_xray [simp]:
  "alive (xray pong b c)" "\<not> alive (xray (failed m) b c)"
  by (simp_all add: alive_def pong_def ok_def failed_def opt_data_def)

lemma availability_samples [simp]:
  "availability_of pong = Some True" "availability_of (failed m) = Some False"
  by (simp_all add: availability_of_def pong_def ok_def failed_def opt_data_def messageRenders_def)

section \<open>The properties\<close>

text \<open>
  C8. A request in which the repository key or the artifact path is absent is answered
  with Stop and the message that the artifact could not be validated, whatever its other
  fields are, and no call to the scanning service is made.
\<close>

theorem missing_identity_is_stopped:
  assumes "repoKey_of data = None \<or> artifactPath_of data = None"
  shows "run ctx data = (Inr cannotValidate, []) \<and> status cannotValidate = DOWNLOAD_STOP"
proof -
  from assms have "falsy (repoKey_of data) \<or> falsy (artifactPath_of data)"
    by (auto simp: falsy_def)
  then show ?thesis
    by (simp add: run_missing)
qed

theorem missing_identity_is_stopped_witness:
  "repoKey_of (requestOf (Some (userOf (Some ''xray'') None))
      (Some (downloadOf (Some (libJar\<lparr>key := None, isFolder := True\<rparr>)) (Some ''127.0.0.1'')))) = None
   \<and> run (xray pong (overall ''DONE'') (answered 200))
        (requestOf (Some (userOf (Some ''xray'') None))
          (Some (downloadOf (Some (libJar\<lparr>key := None, isFolder := True\<rparr>)) (Some ''127.0.0.1''))))
      = (Inr \<lparr>status = DOWNLOAD_STOP,
               message = ''Unable to validate artifact. Missing repository or path information.'',
               headers = []\<rparr>, [])"
proof -
  have h: "repoKey_of (requestOf (Some (userOf (Some ''xray'') None))
      (Some (downloadOf (Some (libJar\<lparr>key := None, isFolder := True\<rparr>)) (Some ''127.0.0.1'')))) = None"
    by (simp add: vocab_defs sample_defs)
  from missing_identity_is_stopped[OF disjI1, OF h] h show ?thesis
    by (simp add: response_defs)
qed

text \<open>
  C10. A repository key or artifact path that is present but empty is treated like an
  absent one: Stop with the cannot-validate message and no call to the scanning service,
  also when the target is a folder or a root.
\<close>

theorem empty_identity_is_stopped:
  assumes "repoKey_of data = Some [] \<or> artifactPath_of data = Some []"
  shows "run ctx data = (Inr cannotValidate, []) \<and> status cannotValidate = DOWNLOAD_STOP"
proof -
  from assms have "falsy (repoKey_of data) \<or> falsy (artifactPath_of data)"
    by (auto simp: falsy_def)
  then show ?thesis
    by (simp add: run_missing)
qed

theorem empty_identity_is_stopped_witness:
  "artifactPath_of (requestOf None
      (Some (downloadOf (Some (libJar\<lparr>path := Some [], isRoot := True, isFolder := True\<rparr>)) None))) = Some []
   \<and> folderOrRoot (requestOf None
      (Some (downloadOf (Some (libJar\<lparr>path := Some [], isRoot := True, isFolder := True\<rparr>)) None)))
   \<and> run (xray pong (overall ''DONE'') (answered 200))
        (requestOf None
          (Some (downloadOf (Some (libJar\<lparr>path := Some [], isRoot := True, isFolder := True\<rparr>)) None)))
      = (Inr \<lparr>status = DOWNLOAD_STOP,
               message = ''Unable to validate artifact. Missing repository or path information.'',
               headers = []\<rparr>, [])"
proof -
  have h: "artifactPath_of (requestOf None
      (Some (downloadOf (Some (libJar\<lparr>path := Some [], isRoot := True, isFolder := True\<rparr>)) None))) = Some []"
    by (simp add: vocab_defs sample_defs)
  from empty_identity_is_stopped[OF disjI2, OF h] h show ?thesis
    by (simp add: response_defs vocab_defs sample_defs)
qed

text \<open>
  C4, as the handler has it. The first guard of the handler stops a request without a
  non-empty repository key and path before it looks at the flags. For every request that
  has both and whose target has \<^verbatim>\<open>isFolder\<close> or \<^verbatim>\<open>isRoot\<close> set, the disposition is
  Proceed and no liveness, status or reindex call is made, whatever the other fields are.
\<close>

theorem folder_or_root_proceeds:
  assumes "repoKey_of data = Some k" and "k \<noteq> []"
    and "artifactPath_of data = Some p" and "p \<noteq> []"
    and "target data = Some rp" and "isFolder rp \<or> isRoot rp"
  shows "run ctx data = (Inr skippedFolderOrRoot, []) \<and> status skippedFolderOrRoot = DOWNLOAD_PROCEED"
proof -
  from assms have "\<not> falsy (repoKey_of data)" "\<not> falsy (artifactPath_of data)" "folderOrRoot data"
    by (simp_all add: falsy_def folderOrRoot_def)
  then show ?thesis
    by (simp add: run_folderOrRoot)
qed

theorem folder_or_root_proceeds_witness:
  "isFolder (libJar\<lparr>path := Some ''a/b'', isFolder := True\<rparr>)
   \<and> run (xray pong (overall ''NOT_SCANNED'') (answered 200))
        (requestOf (Some (userOf (Some ''xray'') None))
          (Some (downloadOf (Some (libJar\<lparr>path := Some ''a/b'', isFolder := True\<rparr>)) (Some ''10.0.0.5''))))
      = (Inr \<lparr>status = DOWNLOAD_PROCEED,
               message = ''Skipping folder/root - scan check only applies to artifacts.'',
               headers = []\<rparr>, [])"
proof -
  let ?rp = "libJar\<lparr>path := Some ''a/b'', isFolder := True\<rparr>"
  let ?data = "requestOf (Some (userOf (Some ''xray'') None)) (Some (downloadOf (Some ?rp) (Some ''10.0.0.5'')))"
  have h: "repoKey_of ?data = Some ''generic-local''" "''generic-local'' \<noteq> []"
    "artifactPath_of ?data = Some ''a/b''" "''a/b'' \<noteq> []" "target ?data = Some ?rp"
    "isFolder ?rp \<or> isRoot ?rp"
    by (simp_all add: vocab_defs sample_defs)
  from folder_or_root_proceeds[OF h] h(6) show ?thesis
    by (simp add: response_defs)
qed

text \<open>
  C4 as stated fails: a repository root whose path is the empty string has \<^verbatim>\<open>isRoot\<close> set
  and is stopped.
\<close>

theorem folder_or_root_proceeds_counterexample:
  "isRoot (libJar\<lparr>path := Some [], isRoot := True\<rparr>)
   \<and> target (requestOf (Some (userOf (Some ''alice'') None))
        (Some (downloadOf (Some (libJar\<lparr>path := Some [], isRoot := True\<rparr>)) (Some ''10.0.0.5''))))
      = Some (libJar\<lparr>path := Some [], isRoot := True\<rparr>)
   \<and> fst (run (xray pong (overall ''DONE'') (answered 200))
        (requestOf (Some (userOf (Some ''alice'') None))
          (Some (downloadOf (Some (libJar\<lparr>path := Some [], isRoot := True\<rparr>)) (Some ''10.0.0.5'')))))
      = Inr \<lparr>status = DOWNLOAD_STOP,
              message = ''Unable to validate artifact. Missing repository or path information.'',
              headers = []\<rparr>"
  by (simp add: run_def default_handler_def falsy_def js_return_def Let_def
      vocab_defs sample_defs)

text \<open>
  C7, as the handler has it. The first guard of the handler takes an empty repository key
  or path for a missing one. For every request with a non-empty repository key and a
  non-empty path, not for a folder or root, whose originator identity or realm contains
  \<^verbatim>\<open>xray\<close> in any case, or whose client address is \<^verbatim>\<open>127.0.0.1\<close>, \<^verbatim>\<open>::1\<close> or \<^verbatim>\<open>localhost\<close> or
  begins with \<^verbatim>\<open>127.\<close>, the disposition is Proceed, and no liveness, status or reindex call
  is made.
\<close>

theorem xray_traffic_proceeds:
  assumes "repoKey_of data = Some k" and "k \<noteq> []"
    and "artifactPath_of data = Some p" and "p \<noteq> []"
    and "\<not> folderOrRoot data"
    and "containsAnyCase (userId_of data) ''xray'' \<or> containsAnyCase (realm_of data) ''xray''
         \<or> clientAddress_of data = Some ''127.0.0.1'' \<or> clientAddress_of data = Some ''::1''
         \<or> clientAddress_of data = Some ''localhost''
         \<or> (\<exists>a. clientAddress_of data = Some a \<and> take 4 a = ''127.'')"
  shows "run ctx data = (Inr allowedIndexing, []) \<and> status allowedIndexing = DOWNLOAD_PROCEED"
proof -
  have lower: "toLowerCase ''127.0.0.1'' = ''127.0.0.1''" "toLowerCase ''::1'' = ''::1''"
    "toLowerCase ''localhost'' = ''localhost''"
    by (simp_all add: lower_defs)
  have lowered: "take 4 (toLowerCase a) = ''127.''" if "take 4 a = ''127.''" for a
    using toLowerCase_loopback_prefix[OF that] by (simp only: startsWith_loopback)
  have loopback: "isXrayIndexingRequest data"
    if "clientAddress_of data = Some a"
      and "toLowerCase a = ''127.0.0.1'' \<or> toLowerCase a = ''::1'' \<or> toLowerCase a = ''localhost''
           \<or> take 4 (toLowerCase a) = ''127.''" for a
    unfolding isXrayIndexingRequest_iff using that by blast
  from assms(6) consider
      (identity) "containsAnyCase (userId_of data) ''xray''"
    | (realm) "containsAnyCase (realm_of data) ''xray''"
    | (v4) "clientAddress_of data = Some ''127.0.0.1''"
    | (v6) "clientAddress_of data = Some ''::1''"
    | (localhost) "clientAddress_of data = Some ''localhost''"
    | (prefix) a where "clientAddress_of data = Some a" "take 4 a = ''127.''"
    by blast
  then have "isXrayIndexingRequest data"
  proof cases
    case identity
    then show ?thesis unfolding isXrayIndexingRequest_iff by (rule disjI1)
  next
    case realm
    then show ?thesis unfolding isXrayIndexingRequest_iff by blast
  next
    case v4
    then show ?thesis by (rule loopback) (simp add: lower(1))
  next
    case v6
    then show ?thesis by (rule loopback) (simp add: lower(2))
  next
    case localhost
    then show ?thesis by (rule loopback) (simp add: lower(3))
  next
    case prefix
    from prefix(1) show ?thesis by (rule loopback) (simp add: lowered[OF prefix(2)])
  qed
  moreover from assms have "\<not> falsy (repoKey_of data)" "\<not> falsy (artifactPath_of data)"
    by (simp_all add: falsy_def)
  ultimately show ?thesis
    using assms(5) by (simp add: run_indexing)
qed

theorem xray_traffic_proceeds_witness:
  "containsAnyCase (userId_of (requestOf (Some (userOf (Some ''svc-XRay-01'') (Some ''internal'')))
      (Some (downloadOf (Some libJar) (Some ''10.0.0.5''))))) ''xray''
   \<and> run (xray pong (overall ''NOT_SCANNED'') (answered 200))
        (requestOf (Some (userOf (Some ''svc-XRay-01'') (Some ''internal'')))
          (Some (downloadOf (Some libJar) (Some ''10.0.0.5''))))
      = (Inr \<lparr>status = DOWNLOAD_PROCEED, message = ''Allowing Xray indexing request.'',
               headers = []\<rparr>, [])
   \<and> take 4 ''127.0.0.53'' = ''127.''
   \<and> run (xray pong (overall ''NOT_SCANNED'') (answered 200))
        (requestOf None (Some (downloadOf (Some libJar) (Some ''127.0.0.53''))))
      = (Inr \<lparr>status = DOWNLOAD_PROCEED, message = ''Allowing Xray indexing request.'',
               headers = []\<rparr>, [])"
proof -
  let ?byId = "requestOf (Some (userOf (Some ''svc-XRay-01'') (Some ''internal'')))
      (Some (downloadOf (Some libJar) (Some ''10.0.0.5'')))"
  let ?byAddress = "requestOf None (Some (downloadOf (Some libJar) (Some ''127.0.0.53'')))"
  have "''svc-XRay-01'' = ''svc-'' @ ''XRay'' @ ''-01'' \<and> toLowerCase ''XRay'' = ''xray''"
    by (simp add: lower_defs)
  moreover have "userId_of ?byId = Some ''svc-XRay-01''"
    by (simp add: userId_of_def sample_defs)
  ultimately have c: "containsAnyCase (userId_of ?byId) ''xray''"
    unfolding containsAnyCase_def by blast
  have i: "repoKey_of ?byId = Some ''generic-local''" "''generic-local'' \<noteq> []"
    "artifactPath_of ?byId = Some ''a/b/lib.jar''" "''a/b/lib.jar'' \<noteq> []" "\<not> folderOrRoot ?byId"
    by (simp_all add: vocab_defs sample_defs)
  have a: "repoKey_of ?byAddress = Some ''generic-local''" "''generic-local'' \<noteq> []"
    "artifactPath_of ?byAddress = Some ''a/b/lib.jar''" "''a/b/lib.jar'' \<noteq> []"
    "\<not> folderOrRoot ?byAddress"
    by (simp_all add: vocab_defs sample_defs)
  have t: "clientAddress_of ?byAddress = Some ''127.0.0.53'' \<and> take 4 ''127.0.0.53'' = ''127.''"
    by (simp add: clientAddress_of_def sample_defs)
  from t have d: "containsAnyCase (userId_of ?byAddress) ''xray'' \<or> containsAnyCase (realm_of ?byAddress) ''xray''
         \<or> clientAddress_of ?byAddress = Some ''127.0.0.1'' \<or> clientAddress_of ?byAddress = Some ''::1''
         \<or> clientAddress_of ?byAddress = Some ''localhost''
         \<or> (\<exists>a. clientAddress_of ?byAddress = Some a \<and> take 4 a = ''127.'')"
    by blast
  from xray_traffic_proceeds[OF i disjI1, OF c] xray_traffic_proceeds[OF a d] c t
  show ?thesis
    by (simp add: response_defs)
qed

text \<open>
  C7 as stated fails: the path is present and empty, the target is neither folder nor
  root, the originator is \<^verbatim>\<open>xray\<close>, and the request is stopped.
\<close>

theorem xray_traffic_proceeds_counterexample:
  "repoKey_of (requestOf (Some (userOf (Some ''xray'') (Some ''internal'')))
      (Some (downloadOf (Some (libJar\<lparr>path := Some []\<rparr>)) (Some ''127.0.0.1'')))) = Some ''generic-local''
   \<and> artifactPath_of (requestOf (Some (userOf (Some ''xray'') (Some ''internal'')))
      (Some (downloadOf (Some (libJar\<lparr>path := Some []\<rparr>)) (Some ''127.0.0.1'')))) = Some []
   \<and> \<not> folderOrRoot (requestOf (Some (userOf (Some ''xray'') (Some ''internal'')))
      (Some (downloadOf (Some (libJar\<lparr>path := Some []\<rparr>)) (Some ''127.0.0.1''))))
   \<and> userId_of (requestOf (Some (userOf (Some ''xray'') (Some ''internal'')))
      (Some (downloadOf (Some (libJar\<lparr>path := Some []\<rparr>)) (Some ''127.0.0.1'')))) = Some ''xray''
   \<and> fst (run (xray pong (overall ''DONE'') (answered 200))
        (requestOf (Some (userOf (Some ''xray'') (Some ''internal'')))
          (Some (downloadOf (Some (libJar\<lparr>path := Some []\<rparr>)) (Some ''127.0.0.1'')))))
      = Inr \<lparr>status = DOWNLOAD_STOP,
              message = ''Unable to validate artifact. Missing repository or path information.'',
              headers = []\<rparr>"
  by (simp add: run_def default_handler_def falsy_def js_return_def Let_def
      vocab_defs userId_of_def sample_defs)

text \<open>
  C9. For an applicable request, when the liveness probe succeeds and the status query
  returns overall status \<^verbatim>\<open>DONE\<close>, the disposition is Proceed; likewise for \<^verbatim>\<open>PARTIAL\<close>. The
  reindex endpoint is not called.
\<close>

theorem scanned_artifact_proceeds:
  assumes "applicable data k p" and "alive ctx"
    and "platformHttp ctx (statusCall k p) = Inr r"
    and "overallStatus r = JStr s" and "s = ''DONE'' \<or> s = ''PARTIAL''"
  shows "run ctx data = (Inr (scanned s), [pingCall, statusCall k p])
    \<and> status (scanned s) = DOWNLOAD_PROCEED
    \<and> filter toReindexEndpoint (snd (run ctx data)) = []"
proof -
  from assms(3-5) have "scanStatus_of (platformHttp ctx (statusCall k p)) = Some (JStr s)"
    by (auto simp: scanStatus_of_def)
  with assms(2,5) show ?thesis
    by (auto simp: run_applicable[OF assms(1)] alive_available)
qed

theorem scanned_artifact_proceeds_witness:
  "applicable aliceRequest ''generic-local'' ''a/b/lib.jar''
   \<and> alive (xray pong (overall ''DONE'') (failed ''must not be called''))
   \<and> run (xray pong (overall ''DONE'') (failed ''must not be called'')) aliceRequest
      = (Inr \<lparr>status = DOWNLOAD_PROCEED,
               message = ''Artifact is scanned (status: DONE). Proceeding with download.'',
               headers = []\<rparr>,
         [Get ''/xray/api/v1/system/ping'',
          Post ''/xray/api/v1/artifact/status''
            (JObj [(''repo'', JStr ''generic-local''), (''path'', JStr ''a/b/lib.jar'')])])
   \<and> fst (run (xray pong (overall ''PARTIAL'') (failed ''must not be called'')) aliceRequest)
      = Inr \<lparr>status = DOWNLOAD_PROCEED,
              message = ''Artifact is scanned (status: PARTIAL). Proceeding with download.'',
              headers = []\<rparr>"
proof -
  let ?k = "''generic-local''" and ?p = "''a/b/lib.jar''"
  let ?done = "xray pong (overall ''DONE'') (failed ''must not be called'')"
  let ?partial = "xray pong (overall ''PARTIAL'') (failed ''must not be called'')"
  let ?r = "\<lambda>s. Some (HttpResponse (Some 200) None (JObj [(''overall'', JObj [(''status'', JStr s)])]))"
  have d: "platformHttp ?done (statusCall ?k ?p) = Inr (?r ''DONE'')"
    and p: "platformHttp ?partial (statusCall ?k ?p) = Inr (?r ''PARTIAL'')"
    by (simp_all add: overall_def ok_def)
  have o: "overallStatus (?r s) = JStr s" for s
    by (simp add: overallStatus_def opt_data_def)
  have a: "alive ?done" "alive ?partial"
    by simp_all
  from scanned_artifact_proceeds[OF applicable_aliceRequest a(1) d o disjI1, OF refl]
    scanned_artifact_proceeds[OF applicable_aliceRequest a(2) p o disjI2, OF refl]
    applicable_aliceRequest a(1)
  show ?thesis
    by (simp add: response_defs call_defs)
qed







text \<open>
  C2. Every call to the reindex endpoint has the body \<^verbatim>\<open>{artifacts: [{repository, path}]}\<close>
  with the one pair of the request. For an applicable request, when the liveness probe
  succeeds and the status query returns a truthy overall status other than \<^verbatim>\<open>DONE\<close> and
  \<^verbatim>\<open>PARTIAL\<close>, the reindex endpoint is called exactly once and the disposition is Stop.
\<close>

theorem reindex_is_scoped_to_the_artifact:
  "(\<forall>c \<in> set (snd (run ctx data)). toReindexEndpoint c \<longrightarrow>
      (\<exists>k p. repoKey_of data = Some k \<and> artifactPath_of data = Some p
         \<and> c = Post ''/xray/api/v1/forceReindex''
                 (JObj [(''artifacts'', JArr [JObj [(''repository'', JStr k), (''path'', JStr p)]])])))
   \<and> (applicable data k p \<and> alive ctx \<and> platformHttp ctx (statusCall k p) = Inr r
        \<and> truthy (overallStatus r) \<and> overallStatus r \<noteq> JStr ''DONE''
        \<and> overallStatus r \<noteq> JStr ''PARTIAL''
      \<longrightarrow> filter toReindexEndpoint (snd (run ctx data)) = [reindexCall k p]
        \<and> (\<exists>response. fst (run ctx data) = Inr response \<and> status response = DOWNLOAD_STOP))"
proof (intro conjI ballI impI)
  fix c
  assume c: "c \<in> set (snd (run ctx data))" and re: "toReindexEndpoint c"
  from run_calls_cases[of ctx data] c obtain k' p' where a: "applicable data k' p'"
    and "c = pingCall \<or> c = statusCall k' p' \<or> c = reindexCall k' p'"
    by auto
  with re have "c = reindexCall k' p'"
    by auto
  with a show "\<exists>k p. repoKey_of data = Some k \<and> artifactPath_of data = Some p
         \<and> c = Post ''/xray/api/v1/forceReindex''
                 (JObj [(''artifacts'', JArr [JObj [(''repository'', JStr k), (''path'', JStr p)]])])"
    by (auto simp: applicable_def reindexCall_def)
next
  assume h: "applicable data k p \<and> alive ctx \<and> platformHttp ctx (statusCall k p) = Inr r
        \<and> truthy (overallStatus r) \<and> overallStatus r \<noteq> JStr ''DONE''
        \<and> overallStatus r \<noteq> JStr ''PARTIAL''"
  then have a: "applicable data k p" and l: "alive ctx"
    and s: "scanStatus_of (platformHttp ctx (statusCall k p)) = Some (overallStatus r)"
    by (simp_all add: scanStatus_of_def)
  from h s show "filter toReindexEndpoint (snd (run ctx data)) = [reindexCall k p]"
    by (simp add: run_applicable[OF a] alive_available[OF l] split: option.splits bool.splits)
  from h s have "scanStatus_of (platformHttp ctx (statusCall k p)) \<noteq> Some (JStr ''DONE'')"
    and "scanStatus_of (platformHttp ctx (statusCall k p)) \<noteq> Some (JStr ''PARTIAL'')"
    by simp_all
  from run_stops_after_status_query[OF a l this]
  show "\<exists>response. fst (run ctx data) = Inr response \<and> status response = DOWNLOAD_STOP"
    by (auto simp: respond_def)
qed

theorem reindex_is_scoped_to_the_artifact_witness:
  "reindexCall ''generic-local'' ''a/b/lib.jar''
     \<in> set (snd (run (xray pong (overall ''NOT_SCANNED'') (answered 200)) aliceRequest))
   \<and> toReindexEndpoint (reindexCall ''generic-local'' ''a/b/lib.jar'')
   \<and> repoKey_of aliceRequest = Some ''generic-local''
   \<and> artifactPath_of aliceRequest = Some ''a/b/lib.jar''
   \<and> applicable aliceRequest ''generic-local'' ''a/b/lib.jar''
   \<and> alive (xray pong (overall ''NOT_SCANNED'') (answered 200))
   \<and> overallStatus (Some (HttpResponse (Some 200) None
         (JObj [(''overall'', JObj [(''status'', JStr ''NOT_SCANNED'')])]))) = JStr ''NOT_SCANNED''
   \<and> filter toReindexEndpoint (snd (run (xray pong (overall ''NOT_SCANNED'') (answered 200)) aliceRequest))
      = [Post ''/xray/api/v1/forceReindex''
           (JObj [(''artifacts'',
              JArr [JObj [(''repository'', JStr ''generic-local''), (''path'', JStr ''a/b/lib.jar'')]])])]
   \<and> status remediationTriggered = DOWNLOAD_STOP
   \<and> fst (run (xray pong (overall ''NOT_SCANNED'') (answered 200)) aliceRequest) = Inr remediationTriggered"
proof -
  let ?ctx = "xray pong (overall ''NOT_SCANNED'') (answered 200)"
  let ?k = "''generic-local''" and ?p = "''a/b/lib.jar''"
  let ?r = "Some (HttpResponse (Some 200) None (JObj [(''overall'', JObj [(''status'', JStr ''NOT_SCANNED'')])]))"
  have h: "applicable aliceRequest ?k ?p \<and> alive ?ctx \<and> platformHttp ?ctx (statusCall ?k ?p) = Inr ?r
        \<and> truthy (overallStatus ?r) \<and> overallStatus ?r \<noteq> JStr ''DONE''
        \<and> overallStatus ?r \<noteq> JStr ''PARTIAL''"
    by (simp add: applicable_aliceRequest overall_def ok_def overallStatus_def opt_data_def)
  have o: "overallStatus ?r = JStr ''NOT_SCANNED''"
    by (simp add: overallStatus_def opt_data_def)
  have ids: "repoKey_of aliceRequest = Some ?k" "artifactPath_of aliceRequest = Some ?p"
    using applicable_aliceRequest by (simp_all add: applicable_def)
  have run: "run ?ctx aliceRequest = (Inr remediationTriggered, [pingCall, statusCall ?k ?p, reindexCall ?k ?p])"
    using h o by (simp add: run_applicable[OF applicable_aliceRequest]
        alive_available[OF alive_xray(1)] scanStatus_of_def
        reindexTriggered_of_def statusCode_of_def orElse_def opt_status_def answered_def)
  from reindex_is_scoped_to_the_artifact[of ?ctx aliceRequest ?k ?p ?r] h
  have "filter toReindexEndpoint (snd (run ?ctx aliceRequest)) = [reindexCall ?k ?p]"
    by blast
  with h o ids run show ?thesis
    by (simp add: reindexCall_def)
qed






end
